theory Spec2Isabelle
  imports Complex_Main "HOL-Library.Log_Nat"
begin

section \<open>Python values used by \<open>download_wallpaper.py\<close>\<close>

text \<open>
  Every exception raised inside the \<^verbatim>\<open>try\<close> block of \<^verbatim>\<open>process_image\<close> is caught by
  \<^verbatim>\<open>except Exception\<close>. The model keeps the exception as a value so that each raise is a
  branch of the definitions.
\<close>

datatype error =
    ZeroDivisionError
  | OverflowError
  | ValueError
  | UnidentifiedImageError
  | OSError

definition bind_result :: "error + 'a \<Rightarrow> ('a \<Rightarrow> error + 'b) \<Rightarrow> error + 'b" where
  "bind_result r f = (case r of Inl e \<Rightarrow> Inl e | Inr v \<Rightarrow> f v)"

subsection \<open>Binary64 floating point\<close>

text \<open>
  A Python \<^verbatim>\<open>float\<close> is an IEEE 754 binary64 number. A finite one is modelled by the
  rational it denotes. Every operation of the source is correctly rounded (round to
  nearest, ties to even): \<^verbatim>\<open>int / int\<close>, the conversion of an \<^verbatim>\<open>int\<close> operand of \<^verbatim>\<open>*\<close>, and
  the product of two floats. \<open>round64\<close> is that rounding: the spacing of the doubles around
  \<open>x\<close> is \<open>2 ^ e\<close> with \<open>e = \<lfloor>log\<^sub>2 \<bar>x\<bar>\<rfloor> - 52\<close>, and never below \<open>2 ^ - 1074\<close> (subnormals).
  A rounded magnitude of \<open>2 ^ 1024\<close> or more is an overflow.
\<close>

definition pow2 :: "int \<Rightarrow> rat" where
  "pow2 k = (if 0 \<le> k then 2 ^ nat k else 1 / 2 ^ nat (- k))"

definition ilog2 :: "rat \<Rightarrow> int" where
  "ilog2 x = (case quotient_of x of (a, b) \<Rightarrow>
     (let k = bitlen a - bitlen b in if pow2 k \<le> x then k else k - 1))"

definition round_half_even :: "rat \<Rightarrow> int" where
  "round_half_even x =
     (let f = \<lfloor>x\<rfloor>; d = x - of_int f
      in if d < 1 / 2 then f else if 1 / 2 < d then f + 1 else if even f then f else f + 1)"

definition round64 :: "rat \<Rightarrow> rat" where
  "round64 x = (if x = 0 then 0 else
     (let e = max (ilog2 \<bar>x\<bar> - 52) (- 1074)
      in of_int (round_half_even (x / pow2 e)) * pow2 e))"

definition float_limit :: rat where
  "float_limit = 2 ^ 1024"

definition float_overflow :: "rat \<Rightarrow> bool" where
  "float_overflow x = (float_limit \<le> \<bar>x\<bar>)"

text \<open>The result of a float multiplication: IEEE arithmetic overflows to an infinity.\<close>

datatype pyfloat = Finite rat | PosInf | NegInf

text \<open>\<^verbatim>\<open>a / b\<close> on two ints: \<^verbatim>\<open>ZeroDivisionError\<close>, or the correctly rounded quotient, or
  \<^verbatim>\<open>OverflowError\<close> when the quotient is too large for a float.\<close>

definition int_truediv :: "int \<Rightarrow> int \<Rightarrow> error + rat" where
  "int_truediv a b =
     (if b = 0 then Inl ZeroDivisionError
      else (let q = round64 (of_int a / of_int b)
            in if float_overflow q then Inl OverflowError else Inr q))"

definition int_to_float :: "int \<Rightarrow> error + rat" where
  "int_to_float n =
     (let f = round64 (of_int n)
      in if float_overflow f then Inl OverflowError else Inr f)"

definition float_mul :: "rat \<Rightarrow> rat \<Rightarrow> pyfloat" where
  "float_mul x y =
     (let p = round64 (x * y)
      in if float_limit \<le> p then PosInf else if p \<le> - float_limit then NegInf else Finite p)"

text \<open>\<^verbatim>\<open>n * x\<close> with an int \<open>n\<close> and a float \<open>x\<close>: the int is converted first.\<close>

definition int_times_float :: "int \<Rightarrow> rat \<Rightarrow> error + pyfloat" where
  "int_times_float n x = bind_result (int_to_float n) (\<lambda>f. Inr (float_mul f x))"

definition trunc :: "rat \<Rightarrow> int" where
  "trunc x = (if 0 \<le> x then \<lfloor>x\<rfloor> else \<lceil>x\<rceil>)"

text \<open>\<^verbatim>\<open>int(x)\<close> on a float truncates toward zero and raises on an infinity.\<close>

definition py_int :: "pyfloat \<Rightarrow> error + int" where
  "py_int x = (case x of Finite r \<Rightarrow> Inr (trunc r) | PosInf \<Rightarrow> Inl OverflowError
     | NegInf \<Rightarrow> Inl OverflowError)"

section \<open>Images and the Pillow operations the source calls\<close>

type_synonym rgb = "nat \<times> nat \<times> nat"

type_synonym bytes = "char list"

record img =
  width :: int
  height :: int
  pixel :: "int \<Rightarrow> int \<Rightarrow> rgb"

definition black :: rgb where
  "black = (0, 0, 0)"

definition inside :: "img \<Rightarrow> int \<Rightarrow> int \<Rightarrow> bool" where
  "inside im x y = (0 \<le> x \<and> x < width im \<and> 0 \<le> y \<and> y < height im)"

text \<open>
  \<^verbatim>\<open>image.resize((w, h), Image.Resampling.LANCZOS)\<close>: Pillow raises \<^verbatim>\<open>ValueError\<close> for a
  width or height below 1 and otherwise returns an image of exactly the requested size.
  The resampled pixel values are a parameter of the model (\<open>R\<close>).
\<close>

type_synonym resampler = "img \<Rightarrow> int \<Rightarrow> int \<Rightarrow> int \<Rightarrow> int \<Rightarrow> rgb"

definition resize :: "resampler \<Rightarrow> img \<Rightarrow> int \<Rightarrow> int \<Rightarrow> error + img" where
  "resize R im w h =
     (if w < 1 \<or> h < 1 then Inl ValueError
      else Inr \<lparr>width = w, height = h, pixel = R im w h\<rparr>)"

text \<open>
  \<^verbatim>\<open>image.crop((left, top, right, bottom))\<close>: Pillow raises \<^verbatim>\<open>ValueError\<close> when
  \<^verbatim>\<open>right < left\<close> or \<^verbatim>\<open>bottom < top\<close>. Otherwise the result has size
  \<^verbatim>\<open>(right - left, bottom - top)\<close> whatever the size of the image; a pixel of the box that
  lies outside the image is black. There is no bounds check.
\<close>

definition crop :: "img \<Rightarrow> int \<times> int \<times> int \<times> int \<Rightarrow> error + img" where
  "crop im box =
     (case box of (x0, y0, x1, y1) \<Rightarrow>
        if x1 < x0 \<or> y1 < y0 then Inl ValueError
        else Inr \<lparr>width = x1 - x0, height = y1 - y0,
                  pixel = (\<lambda>x y. if inside im (x0 + x) (y0 + y)
                                  then pixel im (x0 + x) (y0 + y) else black)\<rparr>)"

section \<open>\<^verbatim>\<open>process_image\<close>\<close>

text \<open>
  The local variables of \<^verbatim>\<open>process_image\<close> from \<^verbatim>\<open>required_width\<close> to \<^verbatim>\<open>lower_crop\<close>
  (lines 279 to 324). \<open>scaled\<close> is the variable \<^verbatim>\<open>image\<close> after the optional resize (line 300); each box
  is \<^verbatim>\<open>(left, top, right, bottom)\<close>.
\<close>

record locals =
  required_width :: int
  required_height :: int
  scale_factor :: rat
  new_width :: int
  new_height :: int
  scaled :: img
  current_width :: int
  current_height :: int
  horizontal_offset :: int
  vertical_offset :: int
  upper_box :: "int \<times> int \<times> int \<times> int"
  upper_crop :: img
  lower_box :: "int \<times> int \<times> int \<times> int"
  lower_crop :: img

text \<open>Lines 284 to 293: the footprint and the scale factor.\<close>

definition compute_scale :: "int \<Rightarrow> int \<Rightarrow> int \<Rightarrow> int \<Rightarrow> error + rat" where
  "compute_scale original_width original_height req_width req_height =
     bind_result (int_truediv req_width original_width) (\<lambda>scale_factor_width.
     bind_result (int_truediv req_height original_height) (\<lambda>scale_factor_height.
     Inr (max scale_factor_width scale_factor_height)))"

text \<open>Lines 295 and 296: \<^verbatim>\<open>int(n * scale_factor)\<close>.\<close>

definition scaled_dim :: "int \<Rightarrow> rat \<Rightarrow> error + int" where
  "scaled_dim n sf = bind_result (int_times_float n sf) py_int"

text \<open>Lines 279 to 324, on the image already converted to RGB.\<close>

definition process_locals ::
  "resampler \<Rightarrow> img \<Rightarrow> int \<Rightarrow> int \<Rightarrow> int \<Rightarrow> int \<Rightarrow> int \<Rightarrow> error + locals" where
  "process_locals R rgb_image upper_width upper_height lower_width lower_height offset_px =
     (let original_width = width rgb_image;
          original_height = height rgb_image;
          req_width = max upper_width lower_width;
          req_height = upper_height + offset_px + lower_height
      in
      bind_result (compute_scale original_width original_height req_width req_height) (\<lambda>sf.
      bind_result (scaled_dim original_width sf) (\<lambda>nw.
      bind_result (scaled_dim original_height sf) (\<lambda>nh.
      bind_result (if sf \<noteq> 1 then resize R rgb_image nw nh else Inr rgb_image) (\<lambda>scaled_image.
      (let cur_width = width scaled_image;
           cur_height = height scaled_image;
           h_off = max 0 ((cur_width - req_width) div 2);
           v_off = max 0 ((cur_height - req_height) div 2);
           upper_left = h_off;
           upper_top = v_off;
           upper_right = upper_left + upper_width;
           upper_bottom = upper_top + upper_height;
           lower_left = h_off;
           lower_top = v_off + upper_height + offset_px;
           lower_right = lower_left + lower_width;
           lower_bottom = lower_top + lower_height
       in
       bind_result (crop scaled_image (upper_left, upper_top, upper_right, upper_bottom)) (\<lambda>uc.
       bind_result (crop scaled_image (lower_left, lower_top, lower_right, lower_bottom)) (\<lambda>lc.
       Inr \<lparr>required_width = req_width, required_height = req_height,
            scale_factor = sf, new_width = nw, new_height = nh, scaled = scaled_image,
            current_width = cur_width, current_height = cur_height,
            horizontal_offset = h_off, vertical_offset = v_off,
            upper_box = (upper_left, upper_top, upper_right, upper_bottom),
            upper_crop = uc,
            lower_box = (lower_left, lower_top, lower_right, lower_bottom),
            lower_crop = lc\<rparr>))))))))"

text \<open>
  What the function does not compute itself is a parameter: decoding the bytes and
  converting to RGB (\<open>open_rgb\<close>, lines 253 to 277), the resampling filter, the directory of
  the script, whether a directory can be created and an image saved as JPEG at a path,
  which other paths exist, and the exit code of a subprocess (\<open>None\<close>: the call raised).
\<close>

record env =
  open_rgb :: "bytes \<Rightarrow> error + img"
  resample :: resampler
  script_dir :: string
  can_mkdir :: "string \<Rightarrow> bool"
  can_save :: "string \<Rightarrow> img \<Rightarrow> bool"
  on_disk :: "string \<Rightarrow> bool"
  run_exit :: "string list \<Rightarrow> int option"

text \<open>The files written by \<^verbatim>\<open>save\<close> (each holds the image handed to the JPEG encoder) and
  the argument vectors passed to \<^verbatim>\<open>subprocess.run\<close>, in order.\<close>

record world =
  files :: "string \<rightharpoonup> img"
  runs :: "string list list"

text \<open>\<^verbatim>\<open>Path / str\<close>, without the normalisation that \<^verbatim>\<open>pathlib\<close> applies; the properties below
  use only that the two file names differ.\<close>

definition joinpath :: "string \<Rightarrow> string \<Rightarrow> string" where
  "joinpath d n = d @ ''/'' @ n"

definition process_image ::
  "env \<Rightarrow> world \<Rightarrow> bytes \<Rightarrow> string \<Rightarrow> int \<Rightarrow> int \<Rightarrow> int \<Rightarrow> int \<Rightarrow> int
     \<Rightarrow> world \<times> (string option \<times> string option)" where
  "process_image E w image_data output_dir upper_width upper_height lower_width lower_height
      offset_px =
     (case open_rgb E image_data of
        Inl e \<Rightarrow> (w, (None, None))
      | Inr rgb_image \<Rightarrow>
         (case process_locals (resample E) rgb_image upper_width upper_height lower_width
                 lower_height offset_px of
            Inl e \<Rightarrow> (w, (None, None))
          | Inr l \<Rightarrow>
             (let output_path = joinpath (script_dir E) output_dir;
                  upper_file = joinpath output_path ''wallpaper_upper.jpg'';
                  lower_file = joinpath output_path ''wallpaper_lower.jpg''
              in if \<not> can_mkdir E output_path then (w, (None, None))
                 else if \<not> can_save E upper_file (upper_crop l) then (w, (None, None))
                 else (let w1 = w\<lparr>files := (files w)(upper_file \<mapsto> upper_crop l)\<rparr>
                       in if \<not> can_save E lower_file (lower_crop l) then (w1, (None, None))
                          else (w1\<lparr>files := (files w1)(lower_file \<mapsto> lower_crop l)\<rparr>,
                                (Some upper_file, Some lower_file))))))"

section \<open>The caller\<close>

definition path_exists :: "env \<Rightarrow> world \<Rightarrow> string \<Rightarrow> bool" where
  "path_exists E w p = (on_disk E p \<or> files w p \<noteq> None)"

definition apply_wallpaper :: "env \<Rightarrow> world \<Rightarrow> string \<Rightarrow> string \<Rightarrow> string \<Rightarrow> world \<times> bool" where
  "apply_wallpaper E w exe_path upper_file lower_file =
     (if \<not> path_exists E w exe_path then (w, False)
      else if \<not> path_exists E w upper_file then (w, False)
      else if \<not> path_exists E w lower_file then (w, False)
      else (let args1 = [exe_path, ''-m'', ''0'', upper_file];
                w1 = w\<lparr>runs := runs w @ [args1]\<rparr>
            in case run_exit E args1 of
                 None \<Rightarrow> (w1, False)
               | Some rc1 \<Rightarrow>
                  if rc1 \<noteq> 0 then (w1, False)
                  else (let args2 = [exe_path, ''-m'', ''1'', lower_file];
                            w2 = w1\<lparr>runs := runs w1 @ [args2]\<rparr>
                        in case run_exit E args2 of
                             None \<Rightarrow> (w2, False)
                           | Some rc2 \<Rightarrow> if rc2 \<noteq> 0 then (w2, False) else (w2, True))))"

text \<open>\<^verbatim>\<open>main\<close> from the test \<^verbatim>\<open>if not image_data\<close> (line 469) to its \<^verbatim>\<open>return 0\<close>; the result
  is the exit code.\<close>

definition main_from_image ::
  "env \<Rightarrow> world \<Rightarrow> bytes option \<Rightarrow> string \<Rightarrow> string \<Rightarrow> int \<Rightarrow> int \<Rightarrow> int \<Rightarrow> int \<Rightarrow> int
     \<Rightarrow> world \<times> int" where
  "main_from_image E w image_data exe_path output_dir upper_width upper_height lower_width
      lower_height offset_px =
     (case image_data of
        None \<Rightarrow> (w, 1)
      | Some d \<Rightarrow>
         if d = [] then (w, 1)
         else (case process_image E w d output_dir upper_width upper_height lower_width
                      lower_height offset_px of
                 (w1, (Some upper_file, Some lower_file)) \<Rightarrow>
                   if upper_file = [] \<or> lower_file = [] then (w1, 1)
                   else (case apply_wallpaper E w1 exe_path upper_file lower_file of
                           (w2, ok) \<Rightarrow> if \<not> ok then (w2, 1) else (w2, 0))
               | (w1, _) \<Rightarrow> (w1, 1)))"

section \<open>Vocabulary of the properties\<close>

text \<open>The pixel coordinates covered by a box \<^verbatim>\<open>(left, top, right, bottom)\<close>, in the frame of
  the image it is cut from.\<close>

definition box_pixels :: "int \<times> int \<times> int \<times> int \<Rightarrow> (int \<times> int) set" where
  "box_pixels box =
     (case box of (x0, y0, x1, y1) \<Rightarrow> {(x, y). x0 \<le> x \<and> x < x1 \<and> y0 \<le> y \<and> y < y1})"

text \<open>The fitting pipeline fails at some step: the bytes cannot be decoded, or an exception
  is raised between line 279 and line 324, or the output directory cannot be created, or one
  of the two crops cannot be saved.\<close>

definition pipeline_fails ::
  "env \<Rightarrow> bytes \<Rightarrow> string \<Rightarrow> int \<Rightarrow> int \<Rightarrow> int \<Rightarrow> int \<Rightarrow> int \<Rightarrow> bool" where
  "pipeline_fails E image_data output_dir upper_width upper_height lower_width lower_height
      offset_px =
     (case open_rgb E image_data of
        Inl e \<Rightarrow> True
      | Inr rgb_image \<Rightarrow>
         (case process_locals (resample E) rgb_image upper_width upper_height lower_width
                 lower_height offset_px of
            Inl e \<Rightarrow> True
          | Inr l \<Rightarrow>
             \<not> can_mkdir E (joinpath (script_dir E) output_dir)
             \<or> \<not> can_save E (joinpath (joinpath (script_dir E) output_dir)
                                ''wallpaper_upper.jpg'') (upper_crop l)
             \<or> \<not> can_save E (joinpath (joinpath (script_dir E) output_dir)
                                ''wallpaper_lower.jpg'') (lower_crop l)))"

section \<open>A concrete environment\<close>

text \<open>A uniformly coloured image, a decoder that returns the same image for every input,
  a resampler that paints every pixel white, and a file system in which every write
  succeeds; and the same environment with a lower file that cannot be written.\<close>

definition solid :: "int \<Rightarrow> int \<Rightarrow> rgb \<Rightarrow> img" where
  "solid w h c = \<lparr>width = w, height = h, pixel = (\<lambda>x y. c)\<rparr>"

definition white :: rgb where
  "white = (255, 255, 255)"

definition white_resampler :: resampler where
  "white_resampler im w h x y = white"

definition example_env :: "img \<Rightarrow> env" where
  "example_env im =
     \<lparr>open_rgb = (\<lambda>d. Inr im),
      resample = white_resampler,
      script_dir = ''/opt/wallpaper'',
      can_mkdir = (\<lambda>p. True),
      can_save = (\<lambda>p im. True),
      on_disk = (\<lambda>p. p = ''WallpaperChanger.exe''),
      run_exit = (\<lambda>args. Some 0)\<rparr>"

definition lower_unwritable_env :: "img \<Rightarrow> env" where
  "lower_unwritable_env im =
     (example_env im)\<lparr>can_save :=
        (\<lambda>p c. p \<noteq> ''/opt/wallpaper/temp/wallpaper_lower.jpg'')\<rparr>"

definition empty_world :: world where
  "empty_world = \<lparr>files = Map.empty, runs = []\<rparr>"

section \<open>Evaluation\<close>

text \<open>The overflow bound as a numeral, for evaluation.\<close>

lemma float_limit_numeral [code]:
  "float_limit = 179769313486231590772930519078902473361797697894230657273430081157732675805500963132708477322407536021120113879871393357658789768814416622492847430639474124377767893424865485276302219601246094119453082952085005768838150682342462881473913110540827237163350510684586298239947245938479716304835356329624224137216"
  by (simp add: float_limit_def)

section \<open>Properties of the rounding\<close>





















section \<open>The stages of \<open>process_locals\<close>\<close>

lemma bind_result_InrE:
  assumes "bind_result r f = Inr y"
  obtains v where "r = Inr v" and "f v = Inr y"
  using assms by (cases r) (simp_all add: bind_result_def)

lemma bind_result_Inr: "bind_result (Inr v) f = f v"
  by (simp add: bind_result_def)


lemma process_locals_InrD:
  assumes "process_locals R im Wu Hu Wl Hl G = Inr l"
  shows "required_width l = max Wu Wl"
    and "required_height l = Hu + G + Hl"
    and "compute_scale (width im) (height im) (max Wu Wl) (Hu + G + Hl) = Inr (scale_factor l)"
    and "scaled_dim (width im) (scale_factor l) = Inr (new_width l)"
    and "scaled_dim (height im) (scale_factor l) = Inr (new_height l)"
    and "(if scale_factor l \<noteq> 1 then resize R im (new_width l) (new_height l) else Inr im)
           = Inr (scaled l)"
    and "current_width l = width (scaled l)"
    and "current_height l = height (scaled l)"
    and "horizontal_offset l = max 0 ((current_width l - required_width l) div 2)"
    and "vertical_offset l = max 0 ((current_height l - required_height l) div 2)"
    and "upper_box l = (horizontal_offset l, vertical_offset l,
                        horizontal_offset l + Wu, vertical_offset l + Hu)"
    and "lower_box l = (horizontal_offset l, vertical_offset l + Hu + G,
                        horizontal_offset l + Wl, vertical_offset l + Hu + G + Hl)"
    and "crop (scaled l) (upper_box l) = Inr (upper_crop l)"
    and "crop (scaled l) (lower_box l) = Inr (lower_crop l)"
proof -
  have "\<exists>sf nw nh sc uc lc.
        compute_scale (width im) (height im) (max Wu Wl) (Hu + G + Hl) = Inr sf
      \<and> scaled_dim (width im) sf = Inr nw
      \<and> scaled_dim (height im) sf = Inr nh
      \<and> (if sf \<noteq> 1 then resize R im nw nh else Inr im) = Inr sc
      \<and> crop sc (max 0 ((width sc - max Wu Wl) div 2), max 0 ((height sc - (Hu + G + Hl)) div 2),
                  max 0 ((width sc - max Wu Wl) div 2) + Wu,
                  max 0 ((height sc - (Hu + G + Hl)) div 2) + Hu) = Inr uc
      \<and> crop sc (max 0 ((width sc - max Wu Wl) div 2),
                  max 0 ((height sc - (Hu + G + Hl)) div 2) + Hu + G,
                  max 0 ((width sc - max Wu Wl) div 2) + Wl,
                  max 0 ((height sc - (Hu + G + Hl)) div 2) + Hu + G + Hl) = Inr lc
      \<and> l = \<lparr>required_width = max Wu Wl, required_height = Hu + G + Hl,
            scale_factor = sf, new_width = nw, new_height = nh, scaled = sc,
            current_width = width sc, current_height = height sc,
            horizontal_offset = max 0 ((width sc - max Wu Wl) div 2),
            vertical_offset = max 0 ((height sc - (Hu + G + Hl)) div 2),
            upper_box = (max 0 ((width sc - max Wu Wl) div 2),
                         max 0 ((height sc - (Hu + G + Hl)) div 2),
                         max 0 ((width sc - max Wu Wl) div 2) + Wu,
                         max 0 ((height sc - (Hu + G + Hl)) div 2) + Hu),
            upper_crop = uc,
            lower_box = (max 0 ((width sc - max Wu Wl) div 2),
                         max 0 ((height sc - (Hu + G + Hl)) div 2) + Hu + G,
                         max 0 ((width sc - max Wu Wl) div 2) + Wl,
                         max 0 ((height sc - (Hu + G + Hl)) div 2) + Hu + G + Hl),
            lower_crop = lc\<rparr>"
    using assms unfolding process_locals_def Let_def
    by (elim bind_result_InrE) (intro exI conjI sym[of _ l], (assumption | simp)+)
  then obtain sf nw nh sc uc lc where
        a: "compute_scale (width im) (height im) (max Wu Wl) (Hu + G + Hl) = Inr sf"
           "scaled_dim (width im) sf = Inr nw"
           "scaled_dim (height im) sf = Inr nh"
           "(if sf \<noteq> 1 then resize R im nw nh else Inr im) = Inr sc"
    and c: "crop sc (max 0 ((width sc - max Wu Wl) div 2), max 0 ((height sc - (Hu + G + Hl)) div 2),
                  max 0 ((width sc - max Wu Wl) div 2) + Wu,
                  max 0 ((height sc - (Hu + G + Hl)) div 2) + Hu) = Inr uc"
           "crop sc (max 0 ((width sc - max Wu Wl) div 2),
                  max 0 ((height sc - (Hu + G + Hl)) div 2) + Hu + G,
                  max 0 ((width sc - max Wu Wl) div 2) + Wl,
                  max 0 ((height sc - (Hu + G + Hl)) div 2) + Hu + G + Hl) = Inr lc"
    and l: "l = \<lparr>required_width = max Wu Wl, required_height = Hu + G + Hl,
            scale_factor = sf, new_width = nw, new_height = nh, scaled = sc,
            current_width = width sc, current_height = height sc,
            horizontal_offset = max 0 ((width sc - max Wu Wl) div 2),
            vertical_offset = max 0 ((height sc - (Hu + G + Hl)) div 2),
            upper_box = (max 0 ((width sc - max Wu Wl) div 2),
                         max 0 ((height sc - (Hu + G + Hl)) div 2),
                         max 0 ((width sc - max Wu Wl) div 2) + Wu,
                         max 0 ((height sc - (Hu + G + Hl)) div 2) + Hu),
            upper_crop = uc,
            lower_box = (max 0 ((width sc - max Wu Wl) div 2),
                         max 0 ((height sc - (Hu + G + Hl)) div 2) + Hu + G,
                         max 0 ((width sc - max Wu Wl) div 2) + Wl,
                         max 0 ((height sc - (Hu + G + Hl)) div 2) + Hu + G + Hl),
            lower_crop = lc\<rparr>"
    by blast
  show "required_width l = max Wu Wl" by (simp add: l)
  show "required_height l = Hu + G + Hl" by (simp add: l)
  show "compute_scale (width im) (height im) (max Wu Wl) (Hu + G + Hl) = Inr (scale_factor l)"
    using a(1) by (simp add: l)
  show "scaled_dim (width im) (scale_factor l) = Inr (new_width l)" using a(2) by (simp add: l)
  show "scaled_dim (height im) (scale_factor l) = Inr (new_height l)" using a(3) by (simp add: l)
  show "(if scale_factor l \<noteq> 1 then resize R im (new_width l) (new_height l) else Inr im)
           = Inr (scaled l)" using a(4) by (simp add: l split: if_splits)
  show "current_width l = width (scaled l)" by (simp add: l)
  show "current_height l = height (scaled l)" by (simp add: l)
  show "horizontal_offset l = max 0 ((current_width l - required_width l) div 2)" by (simp add: l)
  show "vertical_offset l = max 0 ((current_height l - required_height l) div 2)" by (simp add: l)
  show "upper_box l = (horizontal_offset l, vertical_offset l,
                        horizontal_offset l + Wu, vertical_offset l + Hu)" by (simp add: l)
  show "lower_box l = (horizontal_offset l, vertical_offset l + Hu + G,
                        horizontal_offset l + Wl, vertical_offset l + Hu + G + Hl)" by (simp add: l)
  show "crop (scaled l) (upper_box l) = Inr (upper_crop l)" using c(1) by (simp add: l)
  show "crop (scaled l) (lower_box l) = Inr (lower_crop l)" using c(2) by (simp add: l)
qed

lemma crop_Inr:
  assumes "x0 \<le> x1" "y0 \<le> y1"
  shows "crop im (x0, y0, x1, y1) =
    Inr \<lparr>width = x1 - x0, height = y1 - y0,
         pixel = (\<lambda>x y. if inside im (x0 + x) (y0 + y) then pixel im (x0 + x) (y0 + y) else black)\<rparr>"
  using assms by (simp add: crop_def)

lemma process_locals_InrI:
  assumes "compute_scale (width im) (height im) (max Wu Wl) (Hu + G + Hl) = Inr sf"
    and "scaled_dim (width im) sf = Inr nw"
    and "scaled_dim (height im) sf = Inr nh"
    and "(if sf \<noteq> 1 then resize R im nw nh else Inr im) = Inr sc"
    and "0 \<le> Wu" "0 \<le> Hu" "0 \<le> Wl" "0 \<le> Hl"
  shows "\<exists>l. process_locals R im Wu Hu Wl Hl G = Inr l
           \<and> scale_factor l = sf \<and> new_width l = nw \<and> new_height l = nh \<and> scaled l = sc"
  unfolding process_locals_def Let_def
  by (simp add: assms(1,2,3) bind_result_Inr assms(4) crop_Inr assms(5-8) del: max.absorb1 max.absorb2 max.absorb3 max.absorb4)

section \<open>Evaluation at concrete inputs\<close>

text \<open>The scale factor and the scaled size for three sources under the default rectangles
  \<open>(1920, 1080)\<close>, \<open>(1920, 515)\<close> and gap \<open>100\<close>, for any resampling filter and any pixel
  content.\<close>

lemma scale_3840x2160:
  "compute_scale 3840 2160 1920 1695 = Inr (7068149415178695 / 9007199254740992)"
  by code_simp

lemma scaled_width_3840x2160:
  "scaled_dim 3840 (7068149415178695 / 9007199254740992) = Inr 3013"
  by code_simp

lemma scaled_height_3840x2160:
  "scaled_dim 2160 (7068149415178695 / 9007199254740992) = Inr 1695"
  by code_simp

lemma locals_3840x2160:
  "\<exists>l. process_locals R (solid 3840 2160 c) 1920 1080 1920 515 100 = Inr l
     \<and> scale_factor l = 7068149415178695 / 9007199254740992
     \<and> new_width l = 3013 \<and> new_height l = 1695
     \<and> scaled l = \<lparr>width = 3013, height = 1695, pixel = R (solid 3840 2160 c) 3013 1695\<rparr>"
  by (rule process_locals_InrI)
     (simp_all add: solid_def scale_3840x2160 scaled_width_3840x2160 scaled_height_3840x2160
        resize_def)

lemma scale_4000x3000:
  "compute_scale 4000 3000 1920 1695 = Inr (1272266894732165 / 2251799813685248)"
  by code_simp

lemma scaled_width_4000x3000:
  "scaled_dim 4000 (1272266894732165 / 2251799813685248) = Inr 2260"
  by code_simp

lemma scaled_height_4000x3000:
  "scaled_dim 3000 (1272266894732165 / 2251799813685248) = Inr 1694"
  by code_simp

lemma locals_4000x3000:
  "\<exists>l. process_locals R (solid 4000 3000 c) 1920 1080 1920 515 100 = Inr l
     \<and> scale_factor l = 1272266894732165 / 2251799813685248
     \<and> new_width l = 2260 \<and> new_height l = 1694
     \<and> scaled l = \<lparr>width = 2260, height = 1694, pixel = R (solid 4000 3000 c) 2260 1694\<rparr>"
  by (rule process_locals_InrI)
     (simp_all add: solid_def scale_4000x3000 scaled_width_4000x3000 scaled_height_4000x3000
        resize_def)

lemma scale_1920x1695:
  "compute_scale 1920 1695 1920 1695 = Inr 1"
  by code_simp

lemma scaled_dim_one_1920: "scaled_dim 1920 1 = Inr 1920"
  by code_simp

lemma scaled_dim_one_1695: "scaled_dim 1695 1 = Inr 1695"
  by code_simp

lemma locals_1920x1695:
  "\<exists>l. process_locals R (solid 1920 1695 c) 1920 1080 1920 515 100 = Inr l
     \<and> scale_factor l = 1 \<and> new_width l = 1920 \<and> new_height l = 1695
     \<and> scaled l = solid 1920 1695 c"
  by (rule process_locals_InrI)
     (simp_all add: solid_def scale_1920x1695 scaled_dim_one_1920 scaled_dim_one_1695)

section \<open>Results of \<open>process_image\<close>\<close>

lemma joinpath_names_differ:
  "joinpath p ''wallpaper_upper.jpg'' \<noteq> joinpath p ''wallpaper_lower.jpg''"
  by (simp add: joinpath_def)

lemma process_image_success:
  assumes "open_rgb E d = Inr im"
    and "process_locals (resample E) im Wu Hu Wl Hl G = Inr l"
    and "can_mkdir E (joinpath (script_dir E) dir)"
    and "can_save E (joinpath (joinpath (script_dir E) dir) ''wallpaper_upper.jpg'') (upper_crop l)"
    and "can_save E (joinpath (joinpath (script_dir E) dir) ''wallpaper_lower.jpg'') (lower_crop l)"
  shows "process_image E w d dir Wu Hu Wl Hl G =
           (w\<lparr>files := (files w)
                (joinpath (joinpath (script_dir E) dir) ''wallpaper_upper.jpg'' \<mapsto> upper_crop l,
                 joinpath (joinpath (script_dir E) dir) ''wallpaper_lower.jpg'' \<mapsto> lower_crop l)\<rparr>,
            (Some (joinpath (joinpath (script_dir E) dir) ''wallpaper_upper.jpg''),
             Some (joinpath (joinpath (script_dir E) dir) ''wallpaper_lower.jpg'')))"
  using assms by (simp add: process_image_def Let_def)

lemma process_image_fails:
  assumes "pipeline_fails E d dir Wu Hu Wl Hl G"
  shows "snd (process_image E w d dir Wu Hu Wl Hl G) = (None, None)"
    and "runs (fst (process_image E w d dir Wu Hu Wl Hl G)) = runs w"
  using assms
  by (auto simp: pipeline_fails_def process_image_def Let_def split: sum.splits)


section \<open>Centering and alignment of the crops\<close>

text \<open>
  C5. Whenever \<^verbatim>\<open>process_image\<close> reaches the cropping stage, the centering offsets are
  \<open>max 0 ((scaled_width - required_width) div 2)\<close> and
  \<open>max 0 ((scaled_height - required_height) div 2)\<close>, with floor division on integers, where
  the scaled size is the size of the image after the optional resize and the required size is
  \<open>(max Wu Wl, Hu + G + Hl)\<close>. When the scaled image has exactly the required size, both
  offsets are 0.
\<close>

theorem centering_offsets:
  assumes "process_locals R im Wu Hu Wl Hl G = Inr l"
  shows "horizontal_offset l = max 0 ((width (scaled l) - max Wu Wl) div 2)
       \<and> vertical_offset l = max 0 ((height (scaled l) - (Hu + G + Hl)) div 2)
       \<and> (width (scaled l) = max Wu Wl \<and> height (scaled l) = Hu + G + Hl
            \<longrightarrow> horizontal_offset l = 0 \<and> vertical_offset l = 0)"
  using process_locals_InrD(1,2,7-10)[OF assms] by simp

theorem centering_offsets_witness:
  "\<exists>l. process_locals white_resampler (solid 1920 1695 white) 1920 1080 1920 515 100 = Inr l
     \<and> width (scaled l) = max 1920 1920 \<and> height (scaled l) = 1080 + 100 + 515
     \<and> horizontal_offset l = 0 \<and> vertical_offset l = 0"
proof -
  obtain l where l:
    "process_locals white_resampler (solid 1920 1695 white) 1920 1080 1920 515 100 = Inr l"
    "scaled l = solid 1920 1695 white"
    using locals_1920x1695 by blast
  have s: "width (scaled l) = 1920" "height (scaled l) = 1695"
    by (simp_all add: l(2) solid_def)
  from centering_offsets[OF l(1)] s have "horizontal_offset l = 0 \<and> vertical_offset l = 0"
    by simp
  with l(1) s show ?thesis by simp
qed

text \<open>
  C6. Whenever \<^verbatim>\<open>process_image\<close> reaches the cropping stage, both crop boxes start at the
  same left edge \<open>horizontal_offset\<close>; the upper box starts at \<open>vertical_offset\<close> and the lower
  box at \<open>vertical_offset + Hu + G\<close>; and for a non-negative gap the two boxes have no pixel
  coordinate of the scaled image's frame in common.
\<close>

theorem crops_aligned_and_disjoint:
  assumes "process_locals R im Wu Hu Wl Hl G = Inr l"
  shows "upper_box l = (horizontal_offset l, vertical_offset l,
                        horizontal_offset l + Wu, vertical_offset l + Hu)
       \<and> lower_box l = (horizontal_offset l, vertical_offset l + Hu + G,
                        horizontal_offset l + Wl, vertical_offset l + Hu + G + Hl)
       \<and> (0 \<le> G \<longrightarrow> box_pixels (upper_box l) \<inter> box_pixels (lower_box l) = {})"
  using process_locals_InrD(11,12)[OF assms] by (auto simp: box_pixels_def)

theorem crops_aligned_and_disjoint_witness:
  "\<exists>l. process_locals white_resampler (solid 3840 2160 white) 1920 1080 1920 515 100 = Inr l
     \<and> (0::int) \<le> 100
     \<and> upper_box l = (546, 0, 2466, 1080) \<and> lower_box l = (546, 1180, 2466, 1695)
     \<and> box_pixels (upper_box l) \<inter> box_pixels (lower_box l) = {}"
proof -
  obtain l where l:
    "process_locals white_resampler (solid 3840 2160 white) 1920 1080 1920 515 100 = Inr l"
    "scaled l = \<lparr>width = 3013, height = 1695,
                   pixel = white_resampler (solid 3840 2160 white) 3013 1695\<rparr>"
    using locals_3840x2160 by blast
  have o: "horizontal_offset l = 546" "vertical_offset l = 0"
    using process_locals_InrD(1,2,7-10)[OF l(1)] by (simp_all add: l(2))
  note t = crops_aligned_and_disjoint[OF l(1)]
  have u: "upper_box l = (546, 0, 2466, 1080)" using t o by simp
  have lo: "lower_box l = (546, 1180, 2466, 1695)" using t o by simp
  have g: "(0::int) \<le> 100" by simp
  have d: "box_pixels (upper_box l) \<inter> box_pixels (lower_box l) = {}" using t g by blast
  show ?thesis using l(1) g u lo d by blast
qed

section \<open>Failure and the caller\<close>

text \<open>
  C8. When the fitting pipeline fails at any step (decoding, the computation of lines 279 to
  324, creating the directory, saving either crop), \<^verbatim>\<open>process_image\<close> returns
  \<^verbatim>\<open>(None, None)\<close>, and \<^verbatim>\<open>main\<close> then returns exit code 1 without starting any subprocess: no
  file is forwarded to the wallpaper tool.
\<close>

theorem failure_is_not_forwarded:
  assumes "pipeline_fails E d dir Wu Hu Wl Hl G"
  shows "snd (process_image E w d dir Wu Hu Wl Hl G) = (None, None)
       \<and> snd (main_from_image E w (Some d) exe dir Wu Hu Wl Hl G) = 1
       \<and> runs (fst (main_from_image E w (Some d) exe dir Wu Hu Wl Hl G)) = runs w"
proof -
  obtain w1 where p: "process_image E w d dir Wu Hu Wl Hl G = (w1, (None, None))"
    using process_image_fails(1)[OF assms, of w] by (cases "process_image E w d dir Wu Hu Wl Hl G") auto
  have r: "runs w1 = runs w" using process_image_fails(2)[OF assms, of w] p by simp
  show ?thesis using p r by (simp add: main_from_image_def)
qed

theorem failure_is_not_forwarded_witness:
  "pipeline_fails (lower_unwritable_env (solid 4000 3000 white)) ''photo'' ''temp''
      1920 1080 1920 515 100
   \<and> snd (process_image (lower_unwritable_env (solid 4000 3000 white)) empty_world ''photo''
           ''temp'' 1920 1080 1920 515 100) = (None, None)
   \<and> snd (main_from_image (lower_unwritable_env (solid 4000 3000 white)) empty_world
           (Some ''photo'') ''WallpaperChanger.exe'' ''temp'' 1920 1080 1920 515 100) = 1
   \<and> runs (fst (main_from_image (lower_unwritable_env (solid 4000 3000 white)) empty_world
           (Some ''photo'') ''WallpaperChanger.exe'' ''temp'' 1920 1080 1920 515 100)) = []"
proof -
  obtain l where l:
    "process_locals white_resampler (solid 4000 3000 white) 1920 1080 1920 515 100 = Inr l"
    using locals_4000x3000 by blast
  have f: "pipeline_fails (lower_unwritable_env (solid 4000 3000 white)) ''photo'' ''temp''
      1920 1080 1920 515 100"
    using l by (simp add: pipeline_fails_def lower_unwritable_env_def example_env_def joinpath_def)
  from failure_is_not_forwarded[OF f, of empty_world "''WallpaperChanger.exe''"] f
  show ?thesis by (simp add: empty_world_def)
qed

section \<open>Determinism\<close>



section \<open>Crops that leave the scaled image\<close>

lemma crop_size:
  assumes "crop im (x0, y0, x1, y1) = Inr c"
  shows "width c = x1 - x0" and "height c = y1 - y0"
    and "pixel c = (\<lambda>x y. if inside im (x0 + x) (y0 + y) then pixel im (x0 + x) (y0 + y)
                          else black)"
  using assms by (auto simp: crop_def split: if_splits)

lemma float_product_4000x3000:
  "int_times_float 3000 (1272266894732165 / 2251799813685248)
     = Inr (Finite (7454688836321279 / 4398046511104))"
  by code_simp

text \<open>
  C10. Crop extraction is total. The scaled size is obtained by truncation (\<^verbatim>\<open>int\<close>), and the
  scaled image can be one pixel short of the required footprint: for a 4000 by 3000 source
  and the default rectangles the float product for the height is just below 1695 and the
  scaled height is 1694, while the lower box ends at row 1695. Whenever the cropping stage is
  reached, no error is raised for a box that leaves the scaled image: the crops have exactly
  the sizes \<open>(Wu, Hu)\<close> and \<open>(Wl, Hl)\<close>, and every pixel whose position lies outside the scaled
  image is black.
\<close>

theorem crops_total_with_black_fill:
  "(\<exists>l p. process_locals R (solid 4000 3000 c) 1920 1080 1920 515 100 = Inr l
       \<and> int_times_float 3000 (scale_factor l) = Inr (Finite p)
       \<and> 1694 < p \<and> p < 1695 \<and> new_height l = 1694
       \<and> height (scaled l) = required_height l - 1
       \<and> snd (snd (snd (lower_box l))) = height (scaled l) + 1)
   \<and> (\<forall>l. process_locals R im Wu Hu Wl Hl G = Inr l \<longrightarrow>
         width (upper_crop l) = Wu \<and> height (upper_crop l) = Hu
       \<and> width (lower_crop l) = Wl \<and> height (lower_crop l) = Hl
       \<and> (\<forall>x y. \<not> inside (scaled l) (horizontal_offset l + x) (vertical_offset l + y)
                 \<longrightarrow> pixel (upper_crop l) x y = black)
       \<and> (\<forall>x y. \<not> inside (scaled l) (horizontal_offset l + x)
                          (vertical_offset l + Hu + G + y)
                 \<longrightarrow> pixel (lower_crop l) x y = black))"
proof (intro conjI allI impI)
  obtain l where l: "process_locals R (solid 4000 3000 c) 1920 1080 1920 515 100 = Inr l"
    "scale_factor l = 1272266894732165 / 2251799813685248" "new_height l = 1694"
    "scaled l = \<lparr>width = 2260, height = 1694, pixel = R (solid 4000 3000 c) 2260 1694\<rparr>"
    using locals_4000x3000 by blast
  note d = process_locals_InrD[OF l(1)]
  have "required_height l = 1695" using d(2) by simp
  moreover have "vertical_offset l = 0" using d(2,8,10) by (simp add: l(4))
  then have "snd (snd (snd (lower_box l))) = 1695" using d(12) by simp
  moreover have "int_times_float 3000 (scale_factor l)
       = Inr (Finite (7454688836321279 / 4398046511104))"
    unfolding l(2) by (rule float_product_4000x3000)
  moreover have "height (scaled l) = 1694" by (simp add: l(4))
  ultimately show "\<exists>l p. process_locals R (solid 4000 3000 c) 1920 1080 1920 515 100 = Inr l
       \<and> int_times_float 3000 (scale_factor l) = Inr (Finite p)
       \<and> 1694 < p \<and> p < 1695 \<and> new_height l = 1694
       \<and> height (scaled l) = required_height l - 1
       \<and> snd (snd (snd (lower_box l))) = height (scaled l) + 1"
    using l(1,3)
    by (intro exI[of _ l] exI[of _ "7454688836321279 / 4398046511104"]) simp
next
  fix l assume a: "process_locals R im Wu Hu Wl Hl G = Inr l"
  note d = process_locals_InrD(11-14)[OF a]
  note u = crop_size[OF d(3)[unfolded d(1)]]
  note lo = crop_size[OF d(4)[unfolded d(2)]]
  show "width (upper_crop l) = Wu" using u(1) by simp
  show "height (upper_crop l) = Hu" using u(2) by simp
  show "width (lower_crop l) = Wl" using lo(1) by simp
  show "height (lower_crop l) = Hl" using lo(2) by simp
  show "pixel (upper_crop l) x y = black"
    if "\<not> inside (scaled l) (horizontal_offset l + x) (vertical_offset l + y)" for x y
    using that by (simp add: u(3))
  show "pixel (lower_crop l) x y = black"
    if "\<not> inside (scaled l) (horizontal_offset l + x) (vertical_offset l + Hu + G + y)" for x y
    using that by (simp add: lo(3))
qed

theorem crops_total_with_black_fill_witness:
  "\<exists>l. process_locals white_resampler (solid 4000 3000 white) 1920 1080 1920 515 100 = Inr l
     \<and> \<not> inside (scaled l) (horizontal_offset l + 0) (vertical_offset l + 1080 + 100 + 514)
     \<and> width (upper_crop l) = 1920 \<and> height (upper_crop l) = 1080
     \<and> width (lower_crop l) = 1920 \<and> height (lower_crop l) = 515
     \<and> pixel (lower_crop l) 0 514 = black"
proof -
  obtain l where l:
    "process_locals white_resampler (solid 4000 3000 white) 1920 1080 1920 515 100 = Inr l"
    "scaled l = \<lparr>width = 2260, height = 1694,
                   pixel = white_resampler (solid 4000 3000 white) 2260 1694\<rparr>"
    using locals_4000x3000 by blast
  note d = process_locals_InrD(1,2,7-10)[OF l(1)]
  have v: "vertical_offset l = 0" using d by (simp add: l(2))
  have out: "\<not> inside (scaled l) (horizontal_offset l + 0) (vertical_offset l + 1080 + 100 + 514)"
    by (simp add: inside_def l(2) v)
  from crops_total_with_black_fill[of white_resampler white "solid 4000 3000 white"
      1920 1080 1920 515 100] l(1)
  have t: "width (upper_crop l) = 1920 \<and> height (upper_crop l) = 1080
       \<and> width (lower_crop l) = 1920 \<and> height (lower_crop l) = 515
       \<and> (\<forall>x y. \<not> inside (scaled l) (horizontal_offset l + x)
                          (vertical_offset l + 1080 + 100 + y)
                 \<longrightarrow> pixel (lower_crop l) x y = black)"
    by blast
  then have "pixel (lower_crop l) 0 514 = black" using out by blast
  with l(1) out t show ?thesis by blast
qed

section \<open>No bounds check\<close>

text \<open>
  C3, as the code has it. \<^verbatim>\<open>process_image\<close> has no bounds check and no \<^verbatim>\<open>CropOutOfBounds\<close>
  error. Whenever the crop boxes have been computed and cut (lines 279 to 324), cutting the
  same boxes succeeds on an image of any size, so the position of a box relative to the
  scaled image never causes a failure; and when the directory and both files can be written,
  \<^verbatim>\<open>process_image\<close> stores both crops and returns both paths.
\<close>

theorem out_of_bounds_crop_is_not_rejected:
  assumes "open_rgb E d = Inr im"
    and "process_locals (resample E) im Wu Hu Wl Hl G = Inr l"
    and "can_mkdir E (joinpath (script_dir E) dir)"
    and "can_save E (joinpath (joinpath (script_dir E) dir) ''wallpaper_upper.jpg'') (upper_crop l)"
    and "can_save E (joinpath (joinpath (script_dir E) dir) ''wallpaper_lower.jpg'') (lower_crop l)"
  shows "(\<forall>sc. \<exists>c. crop sc (upper_box l) = Inr c)
       \<and> (\<forall>sc. \<exists>c. crop sc (lower_box l) = Inr c)
       \<and> snd (process_image E w d dir Wu Hu Wl Hl G)
            = (Some (joinpath (joinpath (script_dir E) dir) ''wallpaper_upper.jpg''),
               Some (joinpath (joinpath (script_dir E) dir) ''wallpaper_lower.jpg''))
       \<and> files (fst (process_image E w d dir Wu Hu Wl Hl G))
            (joinpath (joinpath (script_dir E) dir) ''wallpaper_upper.jpg'') = Some (upper_crop l)
       \<and> files (fst (process_image E w d dir Wu Hu Wl Hl G))
            (joinpath (joinpath (script_dir E) dir) ''wallpaper_lower.jpg'') = Some (lower_crop l)"
proof -
  note d = process_locals_InrD(11-14)[OF assms(2)]
  have u: "\<exists>c. crop sc (upper_box l) = Inr c" for sc
    using d(3) unfolding d(1) by (auto simp: crop_def split: if_splits)
  have lo: "\<exists>c. crop sc (lower_box l) = Inr c" for sc
    using d(4) unfolding d(2) by (auto simp: crop_def split: if_splits)
  show ?thesis
    using u lo joinpath_names_differ by (simp add: process_image_success[OF assms])
qed

theorem out_of_bounds_crop_is_not_rejected_witness:
  "\<exists>l. open_rgb (example_env (solid 4000 3000 white)) ''photo'' = Inr (solid 4000 3000 white)
     \<and> process_locals (resample (example_env (solid 4000 3000 white))) (solid 4000 3000 white)
           1920 1080 1920 515 100 = Inr l
     \<and> can_mkdir (example_env (solid 4000 3000 white))
           (joinpath (script_dir (example_env (solid 4000 3000 white))) ''temp'')
     \<and> can_save (example_env (solid 4000 3000 white))
           (joinpath (joinpath (script_dir (example_env (solid 4000 3000 white))) ''temp'')
              ''wallpaper_upper.jpg'') (upper_crop l)
     \<and> can_save (example_env (solid 4000 3000 white))
           (joinpath (joinpath (script_dir (example_env (solid 4000 3000 white))) ''temp'')
              ''wallpaper_lower.jpg'') (lower_crop l)
     \<and> height (scaled l) < snd (snd (snd (lower_box l)))
     \<and> snd (process_image (example_env (solid 4000 3000 white)) empty_world ''photo'' ''temp''
           1920 1080 1920 515 100)
          = (Some ''/opt/wallpaper/temp/wallpaper_upper.jpg'',
             Some ''/opt/wallpaper/temp/wallpaper_lower.jpg'')"
proof -
  let ?E = "example_env (solid 4000 3000 white)"
  obtain l where l:
    "process_locals (resample ?E) (solid 4000 3000 white) 1920 1080 1920 515 100 = Inr l"
    "scaled l = \<lparr>width = 2260, height = 1694,
                   pixel = resample ?E (solid 4000 3000 white) 2260 1694\<rparr>"
    using locals_4000x3000[of "resample ?E"] by blast
  note d = process_locals_InrD(1,2,7-12)[OF l(1)]
  have v: "vertical_offset l = 0" using d by (simp add: l(2))
  have b: "height (scaled l) < snd (snd (snd (lower_box l)))" using d(8) by (simp add: v l(2))
  have o: "open_rgb ?E ''photo'' = Inr (solid 4000 3000 white)" by (simp add: example_env_def)
  have m: "can_mkdir ?E (joinpath (script_dir ?E) ''temp'')" by (simp add: example_env_def)
  have s1: "can_save ?E (joinpath (joinpath (script_dir ?E) ''temp'') ''wallpaper_upper.jpg'')
              (upper_crop l)" by (simp add: example_env_def)
  have s2: "can_save ?E (joinpath (joinpath (script_dir ?E) ''temp'') ''wallpaper_lower.jpg'')
              (lower_crop l)" by (simp add: example_env_def)
  have p: "joinpath (joinpath (script_dir ?E) ''temp'') ''wallpaper_upper.jpg''
             = ''/opt/wallpaper/temp/wallpaper_upper.jpg''"
          "joinpath (joinpath (script_dir ?E) ''temp'') ''wallpaper_lower.jpg''
             = ''/opt/wallpaper/temp/wallpaper_lower.jpg''"
    by (simp_all add: example_env_def joinpath_def)
  from out_of_bounds_crop_is_not_rejected[OF o l(1) m s1 s2, of empty_world]
  have "snd (process_image ?E empty_world ''photo'' ''temp'' 1920 1080 1920 515 100)
          = (Some ''/opt/wallpaper/temp/wallpaper_upper.jpg'',
             Some ''/opt/wallpaper/temp/wallpaper_lower.jpg'')"
    unfolding p by blast
  with o l(1) m s1 s2 b show ?thesis by blast
qed

theorem crop_out_of_bounds_counterexample:
  "map_sum id lower_box (process_locals (resample (example_env (solid 4000 3000 white)))
       (solid 4000 3000 white) 1920 1080 1920 515 100) = Inr (170, 1180, 2090, 1695)
   \<and> map_sum id current_height (process_locals (resample (example_env (solid 4000 3000 white)))
       (solid 4000 3000 white) 1920 1080 1920 515 100) = Inr 1694
   \<and> snd (process_image (example_env (solid 4000 3000 white)) empty_world ''photo'' ''temp''
           1920 1080 1920 515 100)
        = (Some ''/opt/wallpaper/temp/wallpaper_upper.jpg'',
           Some ''/opt/wallpaper/temp/wallpaper_lower.jpg'')
   \<and> snd (process_image (example_env (solid 4000 3000 white)) empty_world ''photo'' ''temp''
           1920 1080 1920 515 100) \<noteq> (None, None)"
proof -
  let ?E = "example_env (solid 4000 3000 white)"
  obtain l where l:
    "process_locals (resample ?E) (solid 4000 3000 white) 1920 1080 1920 515 100 = Inr l"
    "scaled l = \<lparr>width = 2260, height = 1694,
                   pixel = resample ?E (solid 4000 3000 white) 2260 1694\<rparr>"
    using locals_4000x3000[of "resample ?E"] by blast
  note d = process_locals_InrD(1,2,7-12)[OF l(1)]
  have h: "current_height l = 1694" using d(4) by (simp add: l(2))
  have b: "lower_box l = (170, 1180, 2090, 1695)" using d by (simp add: l(2))
  have o: "open_rgb ?E ''photo'' = Inr (solid 4000 3000 white)" by (simp add: example_env_def)
  have "snd (process_image ?E empty_world ''photo'' ''temp'' 1920 1080 1920 515 100)
          = (Some ''/opt/wallpaper/temp/wallpaper_upper.jpg'',
             Some ''/opt/wallpaper/temp/wallpaper_lower.jpg'')"
    by (subst process_image_success[OF o l(1)]) (simp_all add: example_env_def joinpath_def)
  then show ?thesis using h b by (simp add: l(1))
qed

lemma resize_size:
  assumes "resize R im w h = Inr sc"
  shows "width sc = w" and "height sc = h" and "1 \<le> w" and "1 \<le> h"
    and "pixel sc = R im w h"
  using assms by (auto simp: resize_def split: if_splits)

section \<open>The boundary scenario\<close>

text \<open>
  C4, as the code has it. When the scale factor is not 1.0 the image is resized to exactly the
  size \<open>(new_width, new_height)\<close> that lines 295 and 296 computed. In the scenario with a
  3840 by 2160 source, rectangles \<open>(1920, 1080)\<close> and \<open>(1920, 515)\<close> and gap 100, the scale
  factor is the larger of the doubles nearest to 1920/3840 and 1695/2160, about 0.785; the
  scaled image is 3013 by 1695; the offsets are 546 and 0; the upper box is
  \<open>(546, 0, 2466, 1080)\<close> and the lower box is \<open>(546, 1180, 2466, 1695)\<close>.
\<close>

theorem boundary_scenario:
  "(\<forall>l. process_locals R im Wu Hu Wl Hl G = Inr l \<and> scale_factor l \<noteq> 1 \<longrightarrow>
        resize R im (new_width l) (new_height l) = Inr (scaled l)
      \<and> width (scaled l) = new_width l \<and> height (scaled l) = new_height l)
   \<and> (\<exists>l. process_locals R (solid 3840 2160 c) 1920 1080 1920 515 100 = Inr l
        \<and> required_width l = 1920 \<and> required_height l = 1695
        \<and> scale_factor l = max (round64 (1920 / 3840)) (round64 (1695 / 2160))
        \<and> \<bar>scale_factor l - 785 / 1000\<bar> < 1 / 1000
        \<and> width (scaled l) = 3013 \<and> height (scaled l) = 1695
        \<and> horizontal_offset l = 546 \<and> vertical_offset l = 0
        \<and> upper_box l = (546, 0, 2466, 1080)
        \<and> lower_box l = (546, 1180, 2466, 1695))"
proof (intro conjI allI impI)
  fix l assume a: "process_locals R im Wu Hu Wl Hl G = Inr l \<and> scale_factor l \<noteq> 1"
  then have r: "resize R im (new_width l) (new_height l) = Inr (scaled l)"
    using process_locals_InrD(6)[of R im Wu Hu Wl Hl G l] by simp
  then show "resize R im (new_width l) (new_height l) = Inr (scaled l)" .
  from r show "width (scaled l) = new_width l" by (rule resize_size(1))
  from r show "height (scaled l) = new_height l" by (rule resize_size(2))
next
  obtain l where l: "process_locals R (solid 3840 2160 c) 1920 1080 1920 515 100 = Inr l"
    "scale_factor l = 7068149415178695 / 9007199254740992"
    "scaled l = \<lparr>width = 3013, height = 1695, pixel = R (solid 3840 2160 c) 3013 1695\<rparr>"
    using locals_3840x2160 by blast
  note d = process_locals_InrD(1,2,7-12)[OF l(1)]
  have m: "max (round64 (1920 / 3840)) (round64 (1695 / 2160))
             = 7068149415178695 / 9007199254740992"
    by code_simp
  have s: "scale_factor l = max (round64 (1920 / 3840)) (round64 (1695 / 2160))"
    unfolding m by (rule l(2))
  have n: "\<bar>scale_factor l - 785 / 1000\<bar> < 1 / 1000" unfolding l(2) by simp
  have w: "width (scaled l) = 3013" "height (scaled l) = 1695" by (simp_all add: l(3))
  have o: "horizontal_offset l = 546" "vertical_offset l = 0" using d w by simp_all
  have b: "upper_box l = (546, 0, 2466, 1080)" "lower_box l = (546, 1180, 2466, 1695)"
    using d(7,8) o by simp_all
  have q: "required_width l = 1920" "required_height l = 1695" using d(1,2) by simp_all
  show "\<exists>l. process_locals R (solid 3840 2160 c) 1920 1080 1920 515 100 = Inr l
        \<and> required_width l = 1920 \<and> required_height l = 1695
        \<and> scale_factor l = max (round64 (1920 / 3840)) (round64 (1695 / 2160))
        \<and> \<bar>scale_factor l - 785 / 1000\<bar> < 1 / 1000
        \<and> width (scaled l) = 3013 \<and> height (scaled l) = 1695
        \<and> horizontal_offset l = 546 \<and> vertical_offset l = 0
        \<and> upper_box l = (546, 0, 2466, 1080)
        \<and> lower_box l = (546, 1180, 2466, 1695)"
    using l(1) q s n w o b by blast
qed

theorem boundary_scenario_witness:
  "\<exists>l. process_locals white_resampler (solid 3840 2160 white) 1920 1080 1920 515 100 = Inr l
     \<and> scale_factor l \<noteq> 1
     \<and> resize white_resampler (solid 3840 2160 white) (new_width l) (new_height l)
          = Inr (scaled l)
     \<and> width (scaled l) = new_width l \<and> height (scaled l) = new_height l
     \<and> new_width l = 3013 \<and> new_height l = 1695"
proof -
  obtain l where l:
    "process_locals white_resampler (solid 3840 2160 white) 1920 1080 1920 515 100 = Inr l"
    "scale_factor l = 7068149415178695 / 9007199254740992"
    "new_width l = 3013" "new_height l = 1695"
    using locals_3840x2160 by blast
  have n: "scale_factor l \<noteq> 1" unfolding l(2) by simp
  from boundary_scenario[of white_resampler "solid 3840 2160 white" 1920 1080 1920 515 100 white]
    l(1) n
  have "resize white_resampler (solid 3840 2160 white) (new_width l) (new_height l)
          = Inr (scaled l)
     \<and> width (scaled l) = new_width l \<and> height (scaled l) = new_height l"
    by blast
  with l(1,3,4) n show ?thesis by blast
qed

theorem boundary_scenario_counterexample:
  "map_sum id current_width (process_locals white_resampler (solid 3840 2160 white)
       1920 1080 1920 515 100) = Inr 3013
   \<and> map_sum id horizontal_offset (process_locals white_resampler (solid 3840 2160 white)
       1920 1080 1920 515 100) = Inr 546
   \<and> map_sum id upper_box (process_locals white_resampler (solid 3840 2160 white)
       1920 1080 1920 515 100) = Inr (546, 0, 2466, 1080)
   \<and> map_sum id lower_box (process_locals white_resampler (solid 3840 2160 white)
       1920 1080 1920 515 100) = Inr (546, 1180, 2466, 1695)
   \<and> map_sum id horizontal_offset (process_locals white_resampler (solid 3840 2160 white)
       1920 1080 1920 515 100) \<noteq> Inr 547
   \<and> map_sum id upper_box (process_locals white_resampler (solid 3840 2160 white)
       1920 1080 1920 515 100) \<noteq> Inr (547, 0, 2467, 1080)
   \<and> map_sum id lower_box (process_locals white_resampler (solid 3840 2160 white)
       1920 1080 1920 515 100) \<noteq> Inr (547, 1180, 2467, 1695)
   \<and> map_sum id new_height (process_locals white_resampler (solid 4000 3000 white)
       1920 1080 1920 515 100) = Inr 1694
   \<and> int_times_float 3000 (1272266894732165 / 2251799813685248)
       = Inr (Finite (7454688836321279 / 4398046511104))
   \<and> round_half_even (7454688836321279 / 4398046511104) = 1695"
proof -
  obtain l where l:
    "process_locals white_resampler (solid 3840 2160 white) 1920 1080 1920 515 100 = Inr l"
    "scaled l = \<lparr>width = 3013, height = 1695,
                   pixel = white_resampler (solid 3840 2160 white) 3013 1695\<rparr>"
    using locals_3840x2160 by blast
  note d = process_locals_InrD(1,2,7-12)[OF l(1)]
  have w: "current_width l = 3013" using d(3) by (simp add: l(2))
  have o: "horizontal_offset l = 546" "vertical_offset l = 0" using d by (simp_all add: l(2))
  have b: "upper_box l = (546, 0, 2466, 1080)" "lower_box l = (546, 1180, 2466, 1695)"
    using d(7,8) o by simp_all
  obtain k where k:
    "process_locals white_resampler (solid 4000 3000 white) 1920 1080 1920 515 100 = Inr k"
    "new_height k = 1694"
    using locals_4000x3000 by blast
  have r: "round_half_even (7454688836321279 / 4398046511104) = 1695"
    by code_simp
  show ?thesis by (simp add: l(1) w o b k r float_product_4000x3000)
qed

section \<open>Cover fit\<close>

lemma scale_value_4000x3000:
  "max (round64 (1920 / 4000)) (round64 (1695 / 3000)) = 1272266894732165 / 2251799813685248"
  by code_simp

text \<open>
  C1 at a 4000 by 3000 source with the default rectangles. The required footprint is 1920 by
  1695 and the scale factor is the larger of the two correctly rounded quotients. That double
  is below the exact quotient 1695/3000, the truncated scaled height is 1694, and the scaled
  image does not cover the required height.
\<close>

theorem cover_fit_violated:
  "\<exists>l. process_locals R (solid 4000 3000 c) 1920 1080 1920 515 100 = Inr l
     \<and> required_width l = max 1920 1920 \<and> required_height l = 1080 + 100 + 515
     \<and> scale_factor l = max (round64 (1920 / 4000)) (round64 (1695 / 3000))
     \<and> scale_factor l < max (1920 / 4000) (1695 / 3000)
     \<and> width (scaled l) = 2260 \<and> height (scaled l) = 1694
     \<and> height (scaled l) < required_height l"
proof -
  obtain l where l: "process_locals R (solid 4000 3000 c) 1920 1080 1920 515 100 = Inr l"
    "scale_factor l = 1272266894732165 / 2251799813685248"
    "scaled l = \<lparr>width = 2260, height = 1694, pixel = R (solid 4000 3000 c) 2260 1694\<rparr>"
    using locals_4000x3000 by blast
  note d = process_locals_InrD(1,2)[OF l(1)]
  have s: "scale_factor l = max (round64 (1920 / 4000)) (round64 (1695 / 3000))"
    unfolding scale_value_4000x3000 by (rule l(2))
  have n: "scale_factor l < max (1920 / 4000) (1695 / 3000)" unfolding l(2) by simp
  have w: "width (scaled l) = 2260" "height (scaled l) = 1694" by (simp_all add: l(3))
  have q: "required_width l = max 1920 1920" "required_height l = 1080 + 100 + 515"
    using d by simp_all
  have "height (scaled l) < required_height l" using w q by simp
  with l(1) q s n w show ?thesis by blast
qed

section \<open>The scale factor relative to 1.0\<close>
















section \<open>Dimensions that are not positive\<close>









end
